theory Spec2Isabelle
  imports Complex_Main "HOL-Library.Finite_Map"
begin

section \<open>The hook dispatch engine of gatewayd\<close>

text \<open>
  The development embeds the hook registry of the gateway (\<^verbatim>\<open>Config\<close>, \<^verbatim>\<open>NewHookConfig\<close>,
  \<^verbatim>\<open>Hooks\<close>, \<^verbatim>\<open>Add\<close>, \<^verbatim>\<open>Get\<close>, \<^verbatim>\<open>Run\<close>) and proves properties of it.

  Go maps are finite maps (\<open>fmap\<close>). Reading a key that is absent from the outer map gives
  Go's nil inner map, which reads like the empty map. A Go pointer that may be nil is an
  \<open>option\<close>. The logger is the list of the events written to it. A callback is a function
  of the context, the payload and the call options; what it does besides returning is a
  change of a state \<open>'s\<close> that is threaded through the chain. Callbacks exchange payloads
  as values (as the plugin clients behind them do) and do not touch the registry. The
  payload handed to \<^verbatim>\<open>Run\<close> is a map that is not nil.
\<close>

subsection \<open>Payloads\<close>

text \<open>
  \<^verbatim>\<open>structpb.Value\<close> and \<^verbatim>\<open>structpb.Struct\<close>: the structured payload, a tree of named fields
  with null, boolean, number, string, list and nested payload values. Doubles are read as
  real numbers; no property below depends on arithmetic.
\<close>

datatype Value =
    NullValue
  | BoolValue bool
  | NumberValue real
  | StringValue string
  | ListValue "Value list"
  | StructValue "(string, Value) fmap"

type_synonym Struct = "(string, Value) fmap"

text \<open>
  The values of the host's \<^verbatim>\<open>map[string]interface{}\<close>: the values that have a structured
  form, \<^verbatim>\<open>time.Duration\<close> (nanoseconds) as the host-specific type, and \<open>NOpaque\<close> for a value
  without any structured form (a channel, a function).
\<close>

datatype Native =
    NNil
  | NBool bool
  | NNumber real
  | NString string
  | NList "Native list"
  | NMap "(string, Native) fmap"
  | NDuration int
  | NOpaque

type_synonym NativeMap = "(string, Native) fmap"

text \<open>
  Modelled from the spec: \<^verbatim>\<open>utils.CastToPrimitiveTypes\<close> is not among the sources. It
  normalises host-specific leaf values into primitives: a duration becomes a number of
  seconds, and a value that is already primitive is passed through.
\<close>

primrec cast_value :: "Native \<Rightarrow> Native" where
  "cast_value NNil = NNil"
| "cast_value (NBool b) = NBool b"
| "cast_value (NNumber r) = NNumber r"
| "cast_value (NString s) = NString s"
| "cast_value (NList xs) = NList (map cast_value xs)"
| "cast_value (NMap m) = NMap (fmmap cast_value m)"
| "cast_value (NDuration d) = NNumber (real_of_int d / 1000000000)"
| "cast_value NOpaque = NOpaque"

definition CastToPrimitiveTypes :: "NativeMap \<Rightarrow> NativeMap" where
  "CastToPrimitiveTypes args = fmmap cast_value args"

text \<open>
  Modelled from the spec: \<^verbatim>\<open>structpb.NewStruct\<close> belongs to the protobuf library. It encodes
  a native map into a structured payload and fails when a value cannot be represented in
  the structured form.
\<close>

primrec NewValue :: "Native \<Rightarrow> Value option" where
  "NewValue NNil = Some NullValue"
| "NewValue (NBool b) = Some (BoolValue b)"
| "NewValue (NNumber r) = Some (NumberValue r)"
| "NewValue (NString s) = Some (StringValue s)"
| "NewValue (NList xs) =
     (let ys = map NewValue xs
      in if list_all (\<lambda>y. y \<noteq> None) ys then Some (ListValue (map the ys)) else None)"
| "NewValue (NMap m) =
     (let m' = fmmap NewValue m
      in if fmpred (\<lambda>k y. y \<noteq> None) m' then Some (StructValue (fmmap the m')) else None)"
| "NewValue (NDuration d) = None"
| "NewValue NOpaque = None"

definition NewStruct :: "NativeMap \<Rightarrow> Struct option" where
  "NewStruct args =
     (let m' = fmmap NewValue args
      in if fmpred (\<lambda>k y. y \<noteq> None) m' then Some (fmmap the m') else None)"

text \<open>
  Modelled from the spec: \<^verbatim>\<open>(*structpb.Struct).AsMap\<close> belongs to the protobuf library. It
  decodes the field tree into a nested native map with primitive leaves; the nil payload has
  no fields and decodes to the empty map.
\<close>

primrec AsInterface :: "Value \<Rightarrow> Native" where
  "AsInterface NullValue = NNil"
| "AsInterface (BoolValue b) = NBool b"
| "AsInterface (NumberValue r) = NNumber r"
| "AsInterface (StringValue s) = NString s"
| "AsInterface (ListValue xs) = NList (map AsInterface xs)"
| "AsInterface (StructValue m) = NMap (fmmap AsInterface m)"

definition AsMap :: "Struct option \<Rightarrow> NativeMap" where
  "AsMap x = (case x of None \<Rightarrow> fmempty | Some f \<Rightarrow> fmmap AsInterface f)"

text \<open>
  Modelled from the spec: \<^verbatim>\<open>utils.Verify\<close> is not among the sources. The output of a callback
  is shape-compatible with the input when every top-level key of the output is a top-level
  key of the input; values are not compared, and a null output is never shape-compatible.
\<close>

definition Verify_spec :: "Struct \<Rightarrow> Struct option \<Rightarrow> bool" where
  "Verify_spec input output =
     (case output of None \<Rightarrow> False | Some out \<Rightarrow> fmdom out |\<subseteq>| fmdom input)"

text \<open>
  Modelled from the spec: \<^verbatim>\<open>utils.Verify\<close>, with the null output as the tests of the
  repository need it. On a non-null output it is the rule of the spec. The null payload
  has no fields; it is accepted for an input without fields, which is what
  \<^verbatim>\<open>Test_HookConfig_Run_Remove\<close> asserts of \<^verbatim>\<open>Run\<close>, and rejected otherwise.
\<close>

definition Verify :: "Struct \<Rightarrow> Struct option \<Rightarrow> bool" where
  "Verify input output =
     (case output of None \<Rightarrow> fmdom input = {||} | Some out \<Rightarrow> Verify_spec input (Some out))"

subsection \<open>The registry\<close>

type_synonym Type = string

text \<open>
  Modelled from the spec: the declarations of \<^verbatim>\<open>Priority\<close> and \<^verbatim>\<open>config.Policy\<close> are not among
  the sources. A priority is an integer, smaller values run first. A policy is one of the
  four named values; \<open>Unrecognized\<close> stands for the values of the underlying type outside
  the enumeration, which the \<^verbatim>\<open>default\<close> branch of \<^verbatim>\<open>Run\<close> receives.
\<close>

type_synonym Priority = int

datatype Policy = PassDown | Ignore | Abort | Remove | Unrecognized nat

datatype Context = Background | WithCancel Context

typedecl CallOption

text \<open>The error of a callback is its message.\<close>

type_synonym error = string

type_synonym 's HookDef =
  "Context \<Rightarrow> Struct option \<Rightarrow> CallOption list \<Rightarrow> 's \<Rightarrow> (Struct option \<times> error option) \<times> 's"

datatype LogEvent =
    LogWarn Type Priority string
  | LogError "error option" Type Priority string

record 's Config =
  hooks :: "(Type, (Priority, 's HookDef) fmap) fmap"
  Logger :: "LogEvent list"
  Verification :: Policy

definition NewHookConfig :: "'s Config" where
  "NewHookConfig = \<lparr>hooks = fmempty, Logger = [], Verification = PassDown\<rparr>"

definition Hooks :: "'s Config \<Rightarrow> (Type, (Priority, 's HookDef) fmap) fmap" where
  "Hooks h = hooks h"

definition Get :: "'s Config \<Rightarrow> Type \<Rightarrow> (Priority, 's HookDef) fmap" where
  "Get h hookType = (case fmlookup (hooks h) hookType of None \<Rightarrow> fmempty | Some m \<Rightarrow> m)"

definition Add :: "'s Config \<Rightarrow> Type \<Rightarrow> Priority \<Rightarrow> 's HookDef \<Rightarrow> 's Config" where
  "Add h hookType prio hookFunc =
     (if fmdom (Get h hookType) = {||}
      then h\<lparr>hooks := fmupd hookType (fmupd prio hookFunc fmempty) (hooks h)\<rparr>
      else
        (let h' = (if prio |\<in>| fmdom (Get h hookType)
                   then h\<lparr>Logger := Logger h @ [LogWarn hookType prio ''Hook is replaced'']\<rparr>
                   else h)
         in h'\<lparr>hooks := fmupd hookType (fmupd prio hookFunc (Get h' hookType)) (hooks h')\<rparr>))"

subsection \<open>Running a chain\<close>

text \<open>
  \<^verbatim>\<open>Run\<close> calls \<^verbatim>\<open>utils.Verify\<close>, which is not among the sources: the verifier is the
  parameter \<open>verify\<close> of the loop and of \<^verbatim>\<open>Run\<close>, and what is proved of \<^verbatim>\<open>Run\<close> holds for
  every verifier.
\<close>

datatype GatewayDError = ErrNilContext | ErrCastFailed

text \<open>
  One invocation of a callback, as the chain sees it: the priority, the payload passed to
  the callback and the payload it returned.
\<close>

record Call =
  call_prio :: Priority
  call_input :: "Struct option"
  call_result :: "Struct option"

text \<open>
  The variables of \<^verbatim>\<open>Run\<close> that the loop changes: the registry \<open>h\<close> (the loop writes to its
  logger), \<^verbatim>\<open>returnVal\<close>, \<^verbatim>\<open>removeList\<close>, the state of the callbacks and the invocations so far.
\<close>

record 's Exec =
  cfg :: "'s Config"
  returnVal :: "Struct option"
  removeList :: "Priority list"
  world :: 's
  calls :: "Call list"

text \<open>
  What one iteration does to the loop: go on, return from \<^verbatim>\<open>Run\<close> with a value, or call a nil
  function (the registry has no callback at the priority), which panics.
\<close>

datatype 's Step = Next "'s Exec" | Return NativeMap "'s Exec" | NilCall "'s Exec"

text \<open>The \<^verbatim>\<open>switch verification\<close> of the loop body, reached when the result is rejected.\<close>

definition policy_switch ::
  "NativeMap \<Rightarrow> Struct \<Rightarrow> Type \<Rightarrow> Policy \<Rightarrow> nat \<Rightarrow> Priority \<Rightarrow> Struct option \<Rightarrow> error option
    \<Rightarrow> 's Exec \<Rightarrow> 's Step" where
  "policy_switch args params hookType verification idx prio result err st =
     (case verification of
        Ignore \<Rightarrow>
          (let st1 = st\<lparr>cfg := (cfg st)\<lparr>Logger := Logger (cfg st) @
                  [LogError err hookType prio ''Hook returned invalid value, ignoring'']\<rparr>\<rparr>
           in Next (if idx = 0 then st1\<lparr>returnVal := Some params\<rparr> else st1))
      | Abort \<Rightarrow>
          (let st1 = st\<lparr>cfg := (cfg st)\<lparr>Logger := Logger (cfg st) @
                  [LogError err hookType prio ''Hook returned invalid value, aborting'']\<rparr>\<rparr>
           in if idx = 0 then Return args st1 else Return (AsMap (returnVal st1)) st1)
      | Remove \<Rightarrow>
          (let st1 = st\<lparr>cfg := (cfg st)\<lparr>Logger := Logger (cfg st) @
                  [LogError err hookType prio ''Hook returned invalid value, removing'']\<rparr>\<rparr>;
               st2 = st1\<lparr>removeList := removeList st1 @ [prio]\<rparr>
           in Next (if idx = 0 then st2\<lparr>returnVal := Some params\<rparr> else st2))
      | PassDown \<Rightarrow> Next st
      | Unrecognized n \<Rightarrow> Next (st\<lparr>returnVal := result\<rparr>))"

text \<open>The body of the loop for the priority \<open>prio\<close> at index \<open>idx\<close>.\<close>

definition run_hook ::
  "(Struct \<Rightarrow> Struct option \<Rightarrow> bool) \<Rightarrow> Context \<Rightarrow> NativeMap \<Rightarrow> Struct \<Rightarrow> Type \<Rightarrow> Policy
    \<Rightarrow> CallOption list \<Rightarrow> nat \<Rightarrow> Priority \<Rightarrow> 's Exec \<Rightarrow> 's Step" where
  "run_hook verify inheritedCtx args params hookType verification opts idx prio st =
     (case fmlookup (Get (cfg st) hookType) prio of
        None \<Rightarrow> NilCall st
      | Some hook \<Rightarrow>
          (let input = (if idx = 0 then Some params else returnVal st);
               ((result, err), w) = hook inheritedCtx input opts (world st);
               st1 = st\<lparr>world := w,
                        calls := calls st @
                          [\<lparr>call_prio = prio, call_input = input, call_result = result\<rparr>]\<rparr>
           in if verify params result \<or> verification = PassDown
              then Next (st1\<lparr>returnVal := result\<rparr>)
              else policy_switch args params hookType verification idx prio result err st1))"

text \<open>The loop \<^verbatim>\<open>for idx, prio := range priorities\<close>, from index \<open>idx\<close> on.\<close>

fun run_hooks ::
  "(Struct \<Rightarrow> Struct option \<Rightarrow> bool) \<Rightarrow> Context \<Rightarrow> NativeMap \<Rightarrow> Struct \<Rightarrow> Type \<Rightarrow> Policy
    \<Rightarrow> CallOption list \<Rightarrow> nat \<Rightarrow> Priority list \<Rightarrow> 's Exec \<Rightarrow> 's Step" where
  "run_hooks verify inheritedCtx args params hookType verification opts idx [] st = Next st"
| "run_hooks verify inheritedCtx args params hookType verification opts idx (prio # rest) st =
     (case run_hook verify inheritedCtx args params hookType verification opts idx prio st of
        Next st1 \<Rightarrow>
          run_hooks verify inheritedCtx args params hookType verification opts (Suc idx) rest st1
      | Return m st1 \<Rightarrow> Return m st1
      | NilCall st1 \<Rightarrow> NilCall st1)"

text \<open>The loop \<^verbatim>\<open>for _, prio := range removeList\<close>; \<^verbatim>\<open>delete\<close> on a nil map does nothing.\<close>

fun remove_hooks :: "'s Config \<Rightarrow> Type \<Rightarrow> Priority list \<Rightarrow> 's Config" where
  "remove_hooks h hookType [] = h"
| "remove_hooks h hookType (prio # rest) =
     remove_hooks
       (case fmlookup (hooks h) hookType of
          None \<Rightarrow> h
        | Some m \<Rightarrow> h\<lparr>hooks := fmupd hookType (fmdrop prio m) (hooks h)\<rparr>)
       hookType rest"

text \<open>
  What \<^verbatim>\<open>Run\<close> leaves behind: the two values it returns (\<open>None\<close> is Go's nil), the registry,
  the state of the callbacks, the invocations it made, and whether it panicked instead of
  returning.
\<close>

record 's RunResult =
  result :: "NativeMap option"
  err :: "GatewayDError option"
  config :: "'s Config"
  state :: 's
  invoked :: "Call list"
  panicked :: bool

definition Run ::
  "(Struct \<Rightarrow> Struct option \<Rightarrow> bool) \<Rightarrow> 's Config \<Rightarrow> Context option \<Rightarrow> NativeMap \<Rightarrow> Type
    \<Rightarrow> Policy \<Rightarrow> CallOption list \<Rightarrow> 's \<Rightarrow> 's RunResult" where
  "Run verify h ctx args0 hookType verification opts w =
     (case ctx of
        None \<Rightarrow> \<lparr>result = None, err = Some ErrNilContext, config = h, state = w,
                  invoked = [], panicked = False\<rparr>
      | Some c \<Rightarrow>
          (let inheritedCtx = WithCancel c;
               args = CastToPrimitiveTypes args0
           in case (if fmdom args = {||} then Some fmempty else NewStruct args) of
                None \<Rightarrow> \<lparr>result = None, err = Some ErrCastFailed, config = h, state = w,
                          invoked = [], panicked = False\<rparr>
              | Some params \<Rightarrow>
                  (let priorities = sorted_list_of_fset (fmdom (Get h hookType))
                   in case run_hooks verify inheritedCtx args params hookType verification opts 0
                             priorities
                             \<lparr>cfg = h, returnVal = Some fmempty, removeList = [], world = w,
                              calls = []\<rparr> of
                        Return m st \<Rightarrow>
                          \<lparr>result = Some m, err = None, config = cfg st, state = world st,
                           invoked = calls st, panicked = False\<rparr>
                      | NilCall st \<Rightarrow>
                          \<lparr>result = None, err = None, config = cfg st, state = world st,
                           invoked = calls st, panicked = True\<rparr>
                      | Next st \<Rightarrow>
                          \<lparr>result = Some (AsMap (returnVal st)), err = None,
                           config = remove_hooks (cfg st) hookType (removeList st),
                           state = world st, invoked = calls st, panicked = False\<rparr>)))"

subsection \<open>Notions for stating the properties\<close>

text \<open>The variables of the loop that a step carries.\<close>

fun exec_of :: "'s Step \<Rightarrow> 's Exec" where
  "exec_of (Next st) = st"
| "exec_of (Return m st) = st"
| "exec_of (NilCall st) = st"

text \<open>
  The variable \<^verbatim>\<open>params\<close> of \<^verbatim>\<open>Run\<close>: the encoded payload, or \<open>None\<close> where \<^verbatim>\<open>Run\<close> returns
  \<^verbatim>\<open>ErrCastFailed\<close>.
\<close>

definition encode_args :: "NativeMap \<Rightarrow> Struct option" where
  "encode_args args0 =
     (let args = CastToPrimitiveTypes args0
      in if fmdom args = {||} then Some fmempty else NewStruct args)"

text \<open>The sorted snapshot of the priorities that \<^verbatim>\<open>Run\<close> iterates over.\<close>

definition priorities_of :: "'s Config \<Rightarrow> Type \<Rightarrow> Priority list" where
  "priorities_of h hookType = sorted_list_of_fset (fmdom (Get h hookType))"

text \<open>The loop of \<^verbatim>\<open>Run\<close> as \<^verbatim>\<open>Run\<close> starts it, for a non-nil context \<open>c\<close>.\<close>

definition chain ::
  "(Struct \<Rightarrow> Struct option \<Rightarrow> bool) \<Rightarrow> 's Config \<Rightarrow> Context \<Rightarrow> NativeMap \<Rightarrow> Struct \<Rightarrow> Type
    \<Rightarrow> Policy \<Rightarrow> CallOption list \<Rightarrow> 's \<Rightarrow> 's Step" where
  "chain verify h c args0 params hookType verification opts w =
     run_hooks verify (WithCancel c) (CastToPrimitiveTypes args0) params hookType verification
       opts 0 (priorities_of h hookType)
       \<lparr>cfg = h, returnVal = Some fmempty, removeList = [], world = w, calls = []\<rparr>"








subsection \<open>The callbacks and the registry of the tests\<close>

definition OnNewLogger :: Type where
  "OnNewLogger = ''onNewLogger''"

definition test_payload :: Struct where
  "test_payload = fmupd ''test'' (StringValue ''test'') fmempty"

definition test_args :: NativeMap where
  "test_args = fmupd ''test'' (NString ''test'') fmempty"

text \<open>The callback of the tests that returns \<^verbatim>\<open>nil, nil\<close>.\<close>

definition hook_nil :: "'s HookDef" where
  "hook_nil c a opts w = ((None, None), w)"

text \<open>The callback of the tests that returns the payload \<^verbatim>\<open>{"test": "test"}\<close>.\<close>

definition hook_test :: "'s HookDef" where
  "hook_test c a opts w = ((Some test_payload, None), w)"

text \<open>The callback of the tests that returns its argument.\<close>

definition hook_args :: "'s HookDef" where
  "hook_args c a opts w = ((a, None), w)"

text \<open>The registry of \<^verbatim>\<open>Test_HookConfig_Run_Abort\<close> and \<^verbatim>\<open>Test_HookConfig_Run_Remove\<close>.\<close>

definition test_hooks :: "unit Config" where
  "test_hooks = Add (Add NewHookConfig OnNewLogger 0 hook_nil) OnNewLogger 1 hook_test"





section \<open>Lemmas\<close>

subsection \<open>The loop\<close>

lemma Get_Logger [simp]: "Get (h\<lparr>Logger := l\<rparr>) t = Get h t"
  by (simp add: Get_def)

lemma Get_cong: "hooks h = hooks h' \<Longrightarrow> Get h t = Get h' t"
  by (simp add: Get_def)

lemma run_hook_hooks:
  "hooks (cfg (exec_of (run_hook verify c args params t v opts idx prio st))) = hooks (cfg st)"
  by (simp add: run_hook_def policy_switch_def Let_def
      split: option.splits prod.splits Policy.splits)


lemma run_hook_NilCall:
  "run_hook verify c args params t v opts idx prio st = NilCall st' \<Longrightarrow>
   prio |\<notin>| fmdom (Get (cfg st) t) \<and> st' = st"
  by (auto simp add: run_hook_def policy_switch_def Let_def fmdom_notI
      split: option.splits prod.splits Policy.splits if_splits)

lemma run_hooks_no_NilCall:
  "fset_of_list ps |\<subseteq>| fmdom (Get (cfg st) t) \<Longrightarrow>
   run_hooks verify c args params t v opts idx ps st \<noteq> NilCall st'"
proof (induction ps arbitrary: idx st)
  case Nil
  show ?case by simp
next
  case (Cons p ps)
  show ?case
  proof (cases "run_hook verify c args params t v opts idx p st")
    case (Next st1)
    have "hooks (cfg st1) = hooks (cfg st)"
      using run_hook_hooks [of verify c args params t v opts idx p st] Next by simp
    then have "Get (cfg st1) t = Get (cfg st) t" by (rule Get_cong)
    with Cons.prems have "fset_of_list ps |\<subseteq>| fmdom (Get (cfg st1) t)" by simp
    from Cons.IH [OF this] Next show ?thesis by simp
  next
    case (Return m st1)
    then show ?thesis by simp
  next
    case (NilCall st1)
    from run_hook_NilCall [OF this] Cons.prems show ?thesis by simp
  qed
qed





subsection \<open>The chain of Run\<close>

lemma fset_of_list_priorities: "fset_of_list (priorities_of h t) = fmdom (Get h t)"
  by (simp add: priorities_of_def)

lemma chain_no_NilCall: "chain verify h c args0 params t v opts w \<noteq> NilCall st'"
  unfolding chain_def
  by (rule run_hooks_no_NilCall) (simp add: fset_of_list_priorities)



lemma Run_nil_ctx:
  "Run verify h None args0 t v opts w =
     \<lparr>result = None, err = Some ErrNilContext, config = h, state = w, invoked = [],
      panicked = False\<rparr>"
  by (simp add: Run_def)

lemma Run_cast_failed:
  "encode_args args0 = None \<Longrightarrow>
   Run verify h (Some c) args0 t v opts w =
     \<lparr>result = None, err = Some ErrCastFailed, config = h, state = w, invoked = [],
      panicked = False\<rparr>"
  by (simp add: Run_def encode_args_def Let_def)

lemma Run_chain:
  "encode_args args0 = Some params \<Longrightarrow>
   Run verify h (Some c) args0 t v opts w =
     (case chain verify h c args0 params t v opts w of
        Return m st \<Rightarrow>
          \<lparr>result = Some m, err = None, config = cfg st, state = world st,
           invoked = calls st, panicked = False\<rparr>
      | NilCall st \<Rightarrow>
          \<lparr>result = None, err = None, config = cfg st, state = world st,
           invoked = calls st, panicked = True\<rparr>
      | Next st \<Rightarrow>
          \<lparr>result = Some (AsMap (returnVal st)), err = None,
           config = remove_hooks (cfg st) t (removeList st),
           state = world st, invoked = calls st, panicked = False\<rparr>)"
  by (simp add: Run_def encode_args_def chain_def priorities_of_def Let_def)


lemma Run_err:
  "encode_args args0 = Some params \<Longrightarrow> err (Run verify h (Some c) args0 t v opts w) = None"
  by (simp add: Run_chain split: Step.splits)

lemma Run_panicked: "panicked (Run verify h ctx args0 t v opts w) = False"
proof (cases ctx)
  case None
  then show ?thesis by (simp add: Run_nil_ctx)
next
  case (Some c)
  show ?thesis
  proof (cases "encode_args args0")
    case None
    then show ?thesis using Some by (simp add: Run_cast_failed)
  next
    case (Some params)
    then show ?thesis using \<open>ctx = Some c\<close> chain_no_NilCall [of verify h c args0 params t v opts w]
      by (simp add: Run_chain split: Step.splits)
  qed
qed

subsection \<open>Encoding and the registry of the tests\<close>

lemma fmdom_empty_iff: "fmdom m = {||} \<longleftrightarrow> m = fmempty"
  by (metis fmdom_empty fmrestrict_fset_dom fmrestrict_fset_null)

lemma NewStruct_empty: "NewStruct fmempty = Some fmempty"
  by (simp add: NewStruct_def)

lemma encode_args_None: "encode_args args0 = None \<longleftrightarrow> NewStruct (CastToPrimitiveTypes args0) = None"
  by (auto simp add: encode_args_def Let_def fmdom_empty_iff NewStruct_empty)


lemma test_hooks_hooks:
  "hooks test_hooks = fmupd OnNewLogger (fmupd 1 hook_test (fmupd 0 hook_nil fmempty)) fmempty"
  by (simp add: test_hooks_def Add_def NewHookConfig_def Get_def)

lemma test_hooks_Get:
  "Get test_hooks OnNewLogger = fmupd 1 hook_test (fmupd 0 hook_nil fmempty)"
  by (simp add: Get_def test_hooks_hooks)

lemma test_hooks_priorities: "priorities_of test_hooks OnNewLogger = [0, 1]"
  by (simp add: priorities_of_def test_hooks_Get sorted_list_of_fset.rep_eq)


lemma fmpred_fmupd_fresh:
  "k |\<notin>| fmdom m \<Longrightarrow> fmpred P (fmupd k v m) \<longleftrightarrow> P k v \<and> fmpred P m"
  by (auto simp add: fmpred_iff fmlookup_dom_iff split: if_splits)

lemma encode_test_args: "encode_args test_args = Some test_payload"
  by (simp add: encode_args_def test_args_def test_payload_def CastToPrimitiveTypes_def
      NewStruct_def fmmap_fmupd fmpred_fmupd_fresh)

subsection \<open>The calls of a chain and the removals\<close>










lemma run_hook_Unrecognized:
  "run_hook verify c args params t (Unrecognized n) opts idx prio st =
   run_hook verify c args params t PassDown opts idx prio st"
  by (auto simp add: run_hook_def policy_switch_def Let_def split: option.splits prod.splits)

lemma run_hooks_Unrecognized:
  "run_hooks verify c args params t (Unrecognized n) opts idx ps st =
   run_hooks verify c args params t PassDown opts idx ps st"
  by (induction ps arbitrary: idx st) (simp_all add: run_hook_Unrecognized split: Step.splits)






lemma empty_priorities: "fmdom (Get h t) = {||} \<Longrightarrow> priorities_of h t = []"
  by (simp add: priorities_of_def sorted_list_of_fset.rep_eq)





subsection \<open>The runs of the tests\<close>



lemma AsMap_test_payload: "AsMap (Some test_payload) = test_args"
  by (simp add: AsMap_def test_payload_def test_args_def fmmap_fmupd)

lemma Verify_test_payload_None: "\<not> Verify test_payload None"
  by (simp add: Verify_def test_payload_def)

lemma Verify_test_payload_self: "Verify test_payload (Some test_payload)"
  by (simp add: Verify_def Verify_spec_def)

lemmas eval_step = chain_def run_hook_def policy_switch_def hook_nil_def hook_test_def
  hook_args_def Let_def Verify_test_payload_None Verify_test_payload_self







lemma run_test_PassDown:
  "Run Verify test_hooks (Some Background) test_args OnNewLogger PassDown [] () =
     \<lparr>result = Some test_args, err = None, config = test_hooks, state = (),
      invoked = [\<lparr>call_prio = 0, call_input = Some test_payload, call_result = None\<rparr>,
                 \<lparr>call_prio = 1, call_input = None, call_result = Some test_payload\<rparr>],
      panicked = False\<rparr>"
  by (simp add: Run_chain [OF encode_test_args] test_hooks_priorities test_hooks_Get eval_step
      AsMap_test_payload)


section \<open>Properties\<close>

text \<open>
  C1. The spec has \<^verbatim>\<open>Run\<close> return the payload unchanged when the hook type has no callback.
  \<^verbatim>\<open>Run\<close> initialises \<^verbatim>\<open>returnVal\<close> to the empty payload and returns its decoding: for every policy
  and every payload that can be encoded, with a non-nil context and no callback registered,
  \<^verbatim>\<open>Run\<close> returns the empty map and no error, invokes nothing and leaves the registry as it
  was.
\<close>

theorem Run_no_hooks:
  "fmdom (Get h t) = {||} \<Longrightarrow> encode_args args0 = Some params \<Longrightarrow>
   Run verify h (Some c) args0 t v opts w =
     \<lparr>result = Some fmempty, err = None, config = h, state = w, invoked = [],
      panicked = False\<rparr>"
  by (simp add: Run_chain chain_def empty_priorities AsMap_def)

theorem Run_no_hooks_witness:
  "Run Verify (NewHookConfig :: unit Config) (Some Background) test_args OnNewLogger Ignore [] () =
     \<lparr>result = Some fmempty, err = None, config = NewHookConfig, state = (), invoked = [],
      panicked = False\<rparr>"
  using Run_no_hooks [of "NewHookConfig :: unit Config" OnNewLogger test_args test_payload
      Verify Background Ignore "[]" "()"]
  by (simp add: encode_test_args Get_def NewHookConfig_def)

text \<open>
  With no callback registered and the payload \<^verbatim>\<open>{"test": "test"}\<close>, \<^verbatim>\<open>Run\<close> returns no error and
  a map that is not the payload.
\<close>

theorem Run_no_hooks_counterexample:
  "err (Run Verify (NewHookConfig :: unit Config) (Some Background) test_args OnNewLogger Ignore [] ())
     = None \<and>
   result (Run Verify (NewHookConfig :: unit Config) (Some Background) test_args OnNewLogger Ignore [] ())
     \<noteq> Some test_args"
proof -
  have "Run Verify (NewHookConfig :: unit Config) (Some Background) test_args OnNewLogger Ignore [] () =
     \<lparr>result = Some fmempty, err = None, config = NewHookConfig, state = (), invoked = [],
      panicked = False\<rparr>"
    by (simp add: Run_chain [OF encode_test_args] chain_def empty_priorities Get_def
        NewHookConfig_def AsMap_def)
  then show ?thesis by (simp add: test_args_def)
qed












text \<open>
  C6. \<^verbatim>\<open>Run\<close> returns an error if and only if the context is nil (\<^verbatim>\<open>ErrNilContext\<close>) or the
  payload cannot be encoded (\<^verbatim>\<open>ErrCastFailed\<close>). The error does not depend on the callbacks.
  With an error \<^verbatim>\<open>Run\<close> returns a nil map, has invoked no callback and has left the registry
  and the state of the callbacks as they were.
\<close>

theorem Run_error:
  "err (Run verify h ctx args0 t v opts w) =
     (if ctx = None then Some ErrNilContext
      else if NewStruct (CastToPrimitiveTypes args0) = None then Some ErrCastFailed
      else None) \<and>
   (err (Run verify h ctx args0 t v opts w) \<noteq> None \<longrightarrow>
      result (Run verify h ctx args0 t v opts w) = None \<and>
      config (Run verify h ctx args0 t v opts w) = h \<and>
      state (Run verify h ctx args0 t v opts w) = w \<and>
      invoked (Run verify h ctx args0 t v opts w) = [])"
proof (cases ctx)
  case None
  then show ?thesis by (simp add: Run_nil_ctx)
next
  case (Some c)
  show ?thesis
  proof (cases "encode_args args0")
    case None
    then have "NewStruct (CastToPrimitiveTypes args0) = None" by (simp add: encode_args_None)
    then show ?thesis using None Some by (simp add: Run_cast_failed)
  next
    case (Some params)
    then have "NewStruct (CastToPrimitiveTypes args0) \<noteq> None"
      using encode_args_None [of args0] by simp
    moreover have "err (Run verify h (Some c) args0 t v opts w) = None"
      by (rule Run_err [OF Some])
    ultimately show ?thesis using \<open>ctx = Some c\<close> by simp
  qed
qed

theorem Run_error_witness:
  "err (Run Verify test_hooks None test_args OnNewLogger Abort [] ()) = Some ErrNilContext \<and>
   result (Run Verify test_hooks None test_args OnNewLogger Abort [] ()) = None \<and>
   config (Run Verify test_hooks None test_args OnNewLogger Abort [] ()) = test_hooks \<and>
   invoked (Run Verify test_hooks None test_args OnNewLogger Abort [] ()) = [] \<and>
   err (Run Verify test_hooks (Some Background) (fmupd ''ch'' NOpaque fmempty) OnNewLogger
          Abort [] ()) = Some ErrCastFailed \<and>
   invoked (Run Verify test_hooks (Some Background) (fmupd ''ch'' NOpaque fmempty) OnNewLogger
          Abort [] ()) = [] \<and>
   err (Run Verify test_hooks (Some Background) test_args OnNewLogger Abort [] ()) = None"
  using Run_error [of Verify test_hooks None test_args OnNewLogger Abort "[]" "()"]
    Run_error [of Verify test_hooks "Some Background" "fmupd ''ch'' NOpaque fmempty" OnNewLogger
      Abort "[]" "()"]
    Run_error [of Verify test_hooks "Some Background" test_args OnNewLogger Abort "[]" "()"]
  by (simp add: CastToPrimitiveTypes_def NewStruct_def test_args_def fmmap_fmupd
      fmpred_fmupd_fresh)






text \<open>
  C9. \<^verbatim>\<open>Add(t, p, f)\<close> followed by \<^verbatim>\<open>Add(t, p, g)\<close> leaves \<open>g\<close> at \<open>(t, p)\<close>, the keys of \<open>t\<close> are
  those before and \<open>p\<close>, the registry is the one that \<^verbatim>\<open>Add(t, p, g)\<close> alone gives, and the
  entry at every other key is unchanged. The registry is a map, so a key has at most one
  callback.
\<close>

theorem Add_replaces:
  "fmlookup (Get (Add (Add h t p f) t p g) t) p = Some g \<and>
   fmdom (Get (Add (Add h t p f) t p g) t) = finsert p (fmdom (Get h t)) \<and>
   hooks (Add (Add h t p f) t p g) = hooks (Add h t p g) \<and>
   (\<forall>t' p'. (t', p') \<noteq> (t, p) \<longrightarrow>
      fmlookup (Get (Add (Add h t p f) t p g) t') p' = fmlookup (Get h t') p')"
  by (auto simp add: Add_def Get_def Let_def fmdom_empty_iff split: option.splits)

theorem Add_replaces_witness:
  "fmlookup (Get (Add (Add (NewHookConfig :: unit Config) OnNewLogger 0 hook_nil) OnNewLogger 0 hook_test)
      OnNewLogger) 0 = Some hook_test \<and>
   fmdom (Get (Add (Add (NewHookConfig :: unit Config) OnNewLogger 0 hook_nil) OnNewLogger 0 hook_test)
      OnNewLogger) = {|0|} \<and>
   fmlookup (Get (Add (Add (NewHookConfig :: unit Config) OnNewLogger 0 hook_nil) OnNewLogger 0 hook_test)
      OnNewLogger) 1 = None"
  using Add_replaces [of "NewHookConfig :: unit Config" OnNewLogger 0 hook_nil hook_test]
  by (simp add: NewHookConfig_def Get_def Add_def)

text \<open>
  C10. For a policy outside the enumeration the \<^verbatim>\<open>switch\<close> takes its \<^verbatim>\<open>default\<close> branch, which
  adopts the rejected result as \<^verbatim>\<open>returnVal\<close>: each step, and \<^verbatim>\<open>Run\<close> as a whole, does what it
  does under \<^verbatim>\<open>PassDown\<close>.
\<close>

theorem Run_unrecognized:
  "policy_switch args params t (Unrecognized n) idx prio res e st = Next (st\<lparr>returnVal := res\<rparr>) \<and>
   run_hook verify c args params t (Unrecognized n) opts idx prio st =
     run_hook verify c args params t PassDown opts idx prio st \<and>
   Run verify h ctx args0 t (Unrecognized n) opts w = Run verify h ctx args0 t PassDown opts w"
  by (simp add: policy_switch_def run_hook_Unrecognized Run_def run_hooks_Unrecognized Let_def
      split: option.splits)

theorem Run_unrecognized_witness:
  "Run Verify test_hooks (Some Background) test_args OnNewLogger (Unrecognized 7) [] () =
     \<lparr>result = Some test_args, err = None, config = test_hooks, state = (),
      invoked = [\<lparr>call_prio = 0, call_input = Some test_payload, call_result = None\<rparr>,
                 \<lparr>call_prio = 1, call_input = None, call_result = Some test_payload\<rparr>],
      panicked = False\<rparr>"
  using Run_unrecognized [where verify = Verify and h = test_hooks and ctx = "Some Background"
      and ?args0.0 = test_args and t = OnNewLogger and n = 7 and opts = "[]" and w = "()",
      THEN conjunct2, THEN conjunct2]
  by (simp add: run_test_PassDown)

end
